theory Spec2Isabelle
  imports Complex_Main "HOL-Library.AList" "HOL-Library.Multiset" "HOL-Library.Code_Target_Nat"
begin

section \<open>JavaScript values\<close>

text \<open>
  A JavaScript number is \<open>NaN\<close>, one of the two infinities, or a finite value.
  Finite values are taken as real numbers and finite arithmetic is exact: the
  rounding and the overflow of IEEE-754 doubles are not modelled, and the two
  zeros are one.  The special values follow the IEEE rules the code relies on
  (\<open>isNaN\<close>, \<open>Infinity - Infinity = NaN\<close>, ...).
\<close>

datatype jsnum = NaN | PInf | NInf | Fin real

text \<open>
  The values a parsed CSV cell can hold (PapaParse with \<open>dynamicTyping\<close>), plus
  \<open>undefined\<close>, which is what reading a property that a row does not have gives.
\<close>

datatype jsval = JNull | JUndefined | JNum jsnum | JStr string | JBool bool

datatype jstype = TObject | TUndefined | TNumber | TString | TBoolean

fun typeof :: "jsval \<Rightarrow> jstype" where
  "typeof JNull = TObject"
| "typeof JUndefined = TUndefined"
| "typeof (JNum _) = TNumber"
| "typeof (JStr _) = TString"
| "typeof (JBool _) = TBoolean"

fun isNaN_num :: "jsnum \<Rightarrow> bool" where
  "isNaN_num NaN = True"
| "isNaN_num _ = False"

subsection \<open>Arithmetic\<close>

fun js_neg :: "jsnum \<Rightarrow> jsnum" where
  "js_neg NaN = NaN"
| "js_neg PInf = NInf"
| "js_neg NInf = PInf"
| "js_neg (Fin a) = Fin (- a)"

fun js_add :: "jsnum \<Rightarrow> jsnum \<Rightarrow> jsnum" where
  "js_add (Fin a) (Fin b) = Fin (a + b)"
| "js_add NaN _ = NaN"
| "js_add _ NaN = NaN"
| "js_add PInf NInf = NaN"
| "js_add NInf PInf = NaN"
| "js_add PInf _ = PInf"
| "js_add _ PInf = PInf"
| "js_add NInf _ = NInf"
| "js_add _ NInf = NInf"

definition js_sub :: "jsnum \<Rightarrow> jsnum \<Rightarrow> jsnum" where
  "js_sub a b = js_add a (js_neg b)"

text \<open>The sign of a non-\<open>NaN\<close> number: \<open>-1\<close>, \<open>0\<close> or \<open>1\<close>.\<close>

fun js_sign :: "jsnum \<Rightarrow> int" where
  "js_sign NaN = 0"
| "js_sign PInf = 1"
| "js_sign NInf = - 1"
| "js_sign (Fin a) = (if a < 0 then - 1 else if a = 0 then 0 else 1)"

definition signed_inf :: "int \<Rightarrow> jsnum" where
  "signed_inf sg = (if sg < 0 then NInf else PInf)"


fun js_mul :: "jsnum \<Rightarrow> jsnum \<Rightarrow> jsnum" where
  "js_mul (Fin a) (Fin b) = Fin (a * b)"
| "js_mul NaN _ = NaN"
| "js_mul _ NaN = NaN"
| "js_mul a b = (if js_sign a * js_sign b = 0 then NaN else signed_inf (js_sign a * js_sign b))"

text \<open>
  Division.  With one zero only, a non-zero finite value divided by zero is taken as
  the infinity of the dividend's sign; the code never divides by a value that can
  be zero without guarding it.
\<close>

fun js_div :: "jsnum \<Rightarrow> jsnum \<Rightarrow> jsnum" where
  "js_div (Fin a) (Fin b) =
     (if b \<noteq> 0 then Fin (a / b) else if a = 0 then NaN else signed_inf (js_sign (Fin a)))"
| "js_div NaN _ = NaN"
| "js_div _ NaN = NaN"
| "js_div (Fin a) _ = Fin 0"
| "js_div a (Fin b) = signed_inf (js_sign a * (if b < 0 then - 1 else 1))"
| "js_div _ _ = NaN"

text \<open>\<open>Math.sqrt\<close> and \<open>Math.pow(x, 2)\<close>.\<close>

fun Math_sqrt :: "jsnum \<Rightarrow> jsnum" where
  "Math_sqrt NaN = NaN"
| "Math_sqrt PInf = PInf"
| "Math_sqrt NInf = NaN"
| "Math_sqrt (Fin a) = (if a < 0 then NaN else Fin (sqrt a))"

fun Math_pow2 :: "jsnum \<Rightarrow> jsnum" where
  "Math_pow2 NaN = NaN"
| "Math_pow2 PInf = PInf"
| "Math_pow2 NInf = PInf"
| "Math_pow2 (Fin a) = Fin (a * a)"

text \<open>The order of the numbers that are not \<open>NaN\<close>.\<close>

fun js_le :: "jsnum \<Rightarrow> jsnum \<Rightarrow> bool" where
  "js_le (Fin a) (Fin b) = (a \<le> b)"
| "js_le NaN _ = False"
| "js_le _ NaN = False"
| "js_le NInf _ = True"
| "js_le _ PInf = True"
| "js_le _ _ = False"

text \<open>\<open>Math.min(...xs)\<close> and \<open>Math.max(...xs)\<close>: \<open>NaN\<close> is contagious.\<close>

definition js_min2 :: "jsnum \<Rightarrow> jsnum \<Rightarrow> jsnum" where
  "js_min2 a b = (if isNaN_num a \<or> isNaN_num b then NaN else if js_le a b then a else b)"

definition js_max2 :: "jsnum \<Rightarrow> jsnum \<Rightarrow> jsnum" where
  "js_max2 a b = (if isNaN_num a \<or> isNaN_num b then NaN else if js_le a b then b else a)"

definition Math_min :: "jsnum list \<Rightarrow> jsnum" where
  "Math_min xs = foldl js_min2 PInf xs"

definition Math_max :: "jsnum list \<Rightarrow> jsnum" where
  "Math_max xs = foldl js_max2 NInf xs"

text \<open>\<open>xs.reduce((a, b) => a + b, 0)\<close>\<close>

definition js_sum :: "jsnum list \<Rightarrow> jsnum" where
  "js_sum xs = foldl js_add (Fin 0) xs"

subsection \<open>Numbers as strings\<close>

text \<open>
  \<open>x.toFixed(d)\<close> gives a string.  It is represented by what it denotes: the
  decimal numeral with \<open>d\<close> fraction digits nearest to \<open>x\<close> (ties away from
  zero), or the plain \<open>String(x)\<close> for \<open>NaN\<close>, the infinities and magnitudes from
  \<open>10^21\<close> on.
\<close>

datatype numstr = NumberString jsnum | Decimal nat real

fun toFixed :: "nat \<Rightarrow> jsnum \<Rightarrow> numstr" where
  "toFixed d (Fin a) =
     (if \<bar>a\<bar> < 10 ^ 21
      then Decimal d (sgn a * of_int \<lfloor>\<bar>a\<bar> * 10 ^ d + 1 / 2\<rfloor> / 10 ^ d)
      else NumberString (Fin a))"
| "toFixed d x = NumberString x"

text \<open>The number a numeric string converts back to (in \<open>b.survivalRate - a.survivalRate\<close>).\<close>

fun Number_of :: "numstr \<Rightarrow> jsnum" where
  "Number_of (NumberString x) = x"
| "Number_of (Decimal d a) = Fin a"


definition digit_char :: "nat \<Rightarrow> char" where
  "digit_char n = ''0123456789'' ! n"

fun string_of_nat :: "nat \<Rightarrow> string" where
  "string_of_nat n =
     (if n < 10 then [digit_char n] else string_of_nat (n div 10) @ [digit_char (n mod 10)])"

declare string_of_nat.simps [simp del]

text \<open>
  \<open>String(x)\<close> for a number.  Integers below \<open>10^21\<close> in magnitude are written in
  decimal.  The digits of any other finite value depend on its binary
  representation and are left to the parameter \<open>fmt\<close>.
\<close>

fun Number_toString :: "(real \<Rightarrow> string) \<Rightarrow> jsnum \<Rightarrow> string" where
  "Number_toString fmt NaN = ''NaN''"
| "Number_toString fmt PInf = ''Infinity''"
| "Number_toString fmt NInf = ''-Infinity''"
| "Number_toString fmt (Fin a) =
     (if a = of_int \<lfloor>a\<rfloor> \<and> \<bar>a\<bar> < 10 ^ 21
      then (if a < 0 then ''-'' else []) @ string_of_nat (nat \<bar>\<lfloor>a\<rfloor>\<bar>)
      else fmt a)"

fun String :: "(real \<Rightarrow> string) \<Rightarrow> jsval \<Rightarrow> string" where
  "String fmt JNull = ''null''"
| "String fmt JUndefined = ''undefined''"
| "String fmt (JNum x) = Number_toString fmt x"
| "String fmt (JStr s) = s"
| "String fmt (JBool b) = (if b then ''true'' else ''false'')"

subsection \<open>Arrays\<close>

text \<open>
  \<open>xs.sort(cmp)\<close>: with a consistent comparator the result is the stable sort, \<open>x\<close>
  staying before \<open>y\<close> unless \<open>cmp(x, y) > 0\<close> (a \<open>NaN\<close> result counts as \<open>0\<close>).
  Every comparator in the code is a difference of numbers that are not \<open>NaN\<close>.
\<close>

fun sort_insert :: "('a \<Rightarrow> 'a \<Rightarrow> jsnum) \<Rightarrow> 'a \<Rightarrow> 'a list \<Rightarrow> 'a list" where
  "sort_insert cmp x [] = [x]"
| "sort_insert cmp x (y # ys) =
     (if js_sign (cmp x y) > 0 then y # sort_insert cmp x ys else x # y # ys)"

definition Array_sort :: "('a \<Rightarrow> 'a \<Rightarrow> jsnum) \<Rightarrow> 'a list \<Rightarrow> 'a list" where
  "Array_sort cmp xs = foldr (sort_insert cmp) xs []"

section \<open>Ordinary objects used as dictionaries\<close>

text \<open>
  An object is the list of its own properties in the order of their creation.
  \<open>Object.keys\<close>, \<open>Object.entries\<close> and the spread syntax enumerate them in the
  order of \<open>OrdinaryOwnPropertyKeys\<close>: first the keys that are array indices
  (canonical decimal strings below \<open>2^32 - 1\<close>) in ascending numeric order, then
  every other key in the order of creation.  Properties inherited from
  \<open>Object.prototype\<close> are not modelled: no column name and no cell value is
  assumed to spell one of them (\<open>constructor\<close>, \<open>toString\<close>, ...).
\<close>

type_synonym 'v jsobj = "(string \<times> 'v) list"

definition is_digit :: "char \<Rightarrow> bool" where
  "is_digit c = (c \<in> set ''0123456789'')"

definition digit_val :: "char \<Rightarrow> nat" where
  "digit_val c = of_char c - 48"

definition nat_of_digits :: "string \<Rightarrow> nat" where
  "nat_of_digits s = foldl (\<lambda>acc c. 10 * acc + digit_val c) 0 s"

definition array_index :: "string \<Rightarrow> nat option" where
  "array_index s =
     (if s \<noteq> [] \<and> list_all is_digit s \<and> (hd s \<noteq> CHR ''0'' \<or> length s = 1)
         \<and> nat_of_digits s < 4294967295
      then Some (nat_of_digits s) else None)"

definition is_index_key :: "string \<Rightarrow> bool" where
  "is_index_key k = (array_index k \<noteq> None)"

definition key_index :: "string \<Rightarrow> nat" where
  "key_index k = (case array_index k of None \<Rightarrow> 0 | Some i \<Rightarrow> i)"

text \<open>\<open>obj[k] = v\<close>: an existing property keeps its place, a new one is created last.\<close>

definition obj_set :: "string \<Rightarrow> 'v \<Rightarrow> 'v jsobj \<Rightarrow> 'v jsobj" where
  "obj_set k v obj = AList.update k v obj"

definition obj_get :: "'v jsobj \<Rightarrow> string \<Rightarrow> 'v option" where
  "obj_get obj k = map_of obj k"

definition Object_entries :: "'v jsobj \<Rightarrow> (string \<times> 'v) list" where
  "Object_entries obj =
     sort_key (\<lambda>p. key_index (fst p)) (filter (\<lambda>p. is_index_key (fst p)) obj)
       @ filter (\<lambda>p. \<not> is_index_key (fst p)) obj"

definition Object_keys :: "'v jsobj \<Rightarrow> string list" where
  "Object_keys obj = map fst (Object_entries obj)"

text \<open>
  The spread \<open>{...obj}\<close>: a fresh object that receives, for each own key in
  enumeration order, the value read from \<open>obj\<close>.
\<close>

definition spread :: "'v jsobj \<Rightarrow> 'v jsobj" where
  "spread obj =
     foldl (\<lambda>acc k. case obj_get obj k of None \<Rightarrow> acc | Some v \<Rightarrow> obj_set k v acc)
           [] (Object_keys obj)"

section \<open>Rows\<close>

type_synonym row = "jsval jsobj"

text \<open>\<open>row[col]\<close>: \<open>undefined\<close> when the row has no such property.\<close>

definition cell :: "row \<Rightarrow> string \<Rightarrow> jsval" where
  "cell r col = (case obj_get r col of None \<Rightarrow> JUndefined | Some v \<Rightarrow> v)"

text \<open>\<open>row => ({...row, source: tag})\<close>\<close>

definition with_source :: "string \<Rightarrow> row \<Rightarrow> row" where
  "with_source tag r = obj_set ''source'' (JStr tag) (spread r)"

section \<open>The analysis state (second variant)\<close>

datatype columnType = Numeric | Categorical

text \<open>
  The entries of \<open>titanicData.missingValues\<close> and \<open>titanicData.stats\<close>.  The field
  names of the source are prefixed, since several of its objects share them
  (\<open>count\<close>, \<open>missing\<close>, \<open>groupedBySurvived\<close>, ...).
\<close>

record missing_info =
  mv_count :: nat
  mv_percentage :: numstr

record grouped_means =
  survivedMean :: numstr
  notSurvivedMean :: numstr
  difference :: numstr

record numeric_stats =
  ns_count :: nat
  ns_missing :: int
  ns_mean :: numstr
  ns_median :: numstr
  ns_stdDev :: numstr
  ns_min :: numstr
  ns_max :: numstr
  ns_q1 :: numstr
  ns_q3 :: numstr
  ns_groupedBySurvived :: "grouped_means option"

record survival_rate =
  sr_value :: string
  sr_survived :: nat
  sr_notSurvived :: nat
  sr_survivalRate :: numstr

record categorical_stats =
  cs_count :: nat
  cs_missing :: int
  cs_uniqueValues :: nat
  cs_topValues :: "(string \<times> nat) list"
  cs_groupedBySurvived :: "survival_rate list option"

datatype column_stats = NumericStats numeric_stats | CategoricalStats categorical_stats

section \<open>Loading and merging (second variant: \<open>loadAndMergeDatasets\<close>)\<close>

text \<open>
  A selected file is represented by what \<open>Papa.parse\<close> reports for it: the
  \<open>error\<close> callback with a message, or the \<open>complete\<close> callback with
  \<open>results.errors\<close> and \<open>results.data\<close>.
\<close>

record parse_results =
  errors :: "string list"
  data :: "row list"

datatype csv_file = ParseError string | ParseComplete parse_results

datatype status =
    SelectBothFiles
  | ErrorParsingTrain string
  | ErrorParsingTest string
  | ErrorLoadingDatasets string
  | StillLoading
  | LoadedAndMerged

fun is_error :: "status \<Rightarrow> bool" where
  "is_error SelectBothFiles = True"
| "is_error (ErrorParsingTrain _) = True"
| "is_error (ErrorParsingTest _) = True"
| "is_error (ErrorLoadingDatasets _) = True"
| "is_error StillLoading = False"
| "is_error LoadedAndMerged = False"

text \<open>The global \<open>titanicData\<close> (the chart handles are left out).\<close>

record titanicData =
  merged :: "row list"
  trainCount :: nat
  testCount :: nat
  columns :: "string list"
  columnTypes :: "columnType jsobj"
  missingValues :: "missing_info jsobj"
  stats :: "column_stats jsobj"

text \<open>\<open>parseCSV\<close>: rejects on the error callback, resolves with \<open>results.data\<close> otherwise.\<close>

fun parseCSV :: "csv_file \<Rightarrow> string + row list" where
  "parseCSV (ParseError msg) = Inl msg"
| "parseCSV (ParseComplete res) = Inr (data res)"

definition is_missing_cell :: "jsval \<Rightarrow> bool" where
  "is_missing_cell v = (v = JNull \<or> v = JUndefined \<or> v = JStr [])"

text \<open>
  The sampling loop of \<open>determineColumnTypes\<close> over the sampled cells of one
  column, carrying \<open>isNumeric\<close> and \<open>numericCount\<close>; the \<open>break\<close> returns at once.
\<close>

fun scan_sample :: "jsval list \<Rightarrow> bool \<Rightarrow> nat \<Rightarrow> bool \<times> nat" where
  "scan_sample [] isNumeric numericCount = (isNumeric, numericCount)"
| "scan_sample (v # vs) isNumeric numericCount =
     (if is_missing_cell v then scan_sample vs isNumeric numericCount
      else if typeof v \<noteq> TNumber then (False, numericCount)
      else scan_sample vs isNumeric (numericCount + 1))"

definition column_type :: "row list \<Rightarrow> string \<Rightarrow> columnType" where
  "column_type sample column =
     (if column = ''source'' then Categorical
      else case scan_sample (map (\<lambda>r. cell r column) sample) True 0 of
             (isNumeric, numericCount) \<Rightarrow>
               if isNumeric \<and> numericCount > 0 then Numeric else Categorical)"

definition determineColumnTypes :: "titanicData \<Rightarrow> titanicData" where
  "determineColumnTypes td =
     (if length (merged td) = 0 then td
      else let sampleSize = min 100 (length (merged td)) in
        td\<lparr>columnTypes :=
             foldl (\<lambda>types column. obj_set column (column_type (take sampleSize (merged td)) column) types)
                   [] (columns td)\<rparr>)"

definition loadAndMergeDatasets ::
  "csv_file option \<Rightarrow> csv_file option \<Rightarrow> titanicData \<Rightarrow> status \<times> titanicData" where
  "loadAndMergeDatasets trainFile testFile td =
     (case (trainFile, testFile) of
        (Some tf, Some sf) \<Rightarrow>
          (case parseCSV tf of
             Inl msg \<Rightarrow> (ErrorLoadingDatasets msg, td)
           | Inr trainData \<Rightarrow>
               (case parseCSV sf of
                  Inl msg \<Rightarrow> (ErrorLoadingDatasets msg, td)
                | Inr testData \<Rightarrow>
                    let trainWithSource = map (with_source ''train'') trainData;
                        testWithSource = map (with_source ''test'') testData;
                        td1 = td\<lparr>merged := trainWithSource @ testWithSource,
                                 trainCount := length trainWithSource,
                                 testCount := length testWithSource\<rparr>;
                        td2 = (if length (merged td1) > 0
                               then td1\<lparr>columns :=
                                      filter (\<lambda>col. col \<noteq> ''source'') (Object_keys (hd (merged td1)))
                                        @ [''source'']\<rparr>
                               else td1)
                    in (LoadedAndMerged, determineColumnTypes td2)))
      | _ \<Rightarrow> (SelectBothFiles, td))"

section \<open>Loading and merging (first variant: \<open>loadAndMergeData\<close>)\<close>

record app_state =
  mergedData :: "row list"
  trainData :: "row list"
  testData :: "row list"
  dataLoaded :: bool

text \<open>
  The first variant registers no \<open>error\<close> callback: after a read error nothing
  more happens and the status stays at the loading message.
\<close>

definition loadAndMergeData ::
  "csv_file option \<Rightarrow> csv_file option \<Rightarrow> app_state \<Rightarrow> status \<times> app_state" where
  "loadAndMergeData trainFile testFile s =
     (case (trainFile, testFile) of
        (Some tf, Some sf) \<Rightarrow>
          (case tf of
             ParseError _ \<Rightarrow> (StillLoading, s)
           | ParseComplete trainResults \<Rightarrow>
               if length (errors trainResults) > 0
               then (ErrorParsingTrain (hd (errors trainResults)), s)
               else
                 let s1 = s\<lparr>trainData := map (with_source ''train'') (data trainResults)\<rparr> in
                 (case sf of
                    ParseError _ \<Rightarrow> (StillLoading, s1)
                  | ParseComplete testResults \<Rightarrow>
                      if length (errors testResults) > 0
                      then (ErrorParsingTest (hd (errors testResults)), s1)
                      else
                        let s2 = s1\<lparr>testData := map (with_source ''test'') (data testResults)\<rparr>;
                            s3 = s2\<lparr>mergedData := trainData s2 @ testData s2, dataLoaded := True\<rparr>
                        in (LoadedAndMerged, s3)))
      | _ \<Rightarrow> (SelectBothFiles, s))"


text \<open>The initial values of the two variants' globals.\<close>

definition initial_titanicData :: titanicData where
  "initial_titanicData =
     \<lparr>merged = [], trainCount = 0, testCount = 0, columns = [], columnTypes = [],
      missingValues = [], stats = []\<rparr>"

definition initial_app_state :: app_state where
  "initial_app_state = \<lparr>mergedData = [], trainData = [], testData = [], dataLoaded = False\<rparr>"

section \<open>Configuration (second variant)\<close>


definition TARGET_COLUMN :: string where
  "TARGET_COLUMN = ''Survived''"

definition EXCLUDED_COLUMNS :: "string list" where
  "EXCLUDED_COLUMNS = [''PassengerId'']"

section \<open>Missing values\<close>

text \<open>The filter of \<open>calculateMissingValues\<close> and of \<open>analyzeMissingValues\<close>.\<close>

definition is_missing_value :: "jsval \<Rightarrow> bool" where
  "is_missing_value v =
     (v = JNull \<or> v = JUndefined \<or> v = JStr []
      \<or> (case v of JNum x \<Rightarrow> isNaN_num x | _ \<Rightarrow> False))"

definition calculateMissingValues :: "titanicData \<Rightarrow> titanicData" where
  "calculateMissingValues td =
     td\<lparr>missingValues :=
          foldl (\<lambda>mv column.
                   if column \<in> set EXCLUDED_COLUMNS then mv
                   else
                     let missingCount =
                           length (filter (\<lambda>row. is_missing_value (cell row column)) (merged td));
                         percentage =
                           js_mul (js_div (Fin (real missingCount)) (Fin (real (length (merged td)))))
                                  (Fin 100)
                     in obj_set column
                          \<lparr>mv_count = missingCount, mv_percentage = toFixed 2 percentage\<rparr> mv)
                [] (columns td)\<rparr>"



section \<open>Statistical summaries (\<open>calculateStatisticalSummaries\<close>)\<close>

text \<open>\<open>values\<close>: the cells of a column that are neither \<open>null\<close>, \<open>undefined\<close> nor empty.\<close>

definition present_values :: "row list \<Rightarrow> string \<Rightarrow> jsval list" where
  "present_values rows column =
     filter (\<lambda>val. val \<noteq> JNull \<and> val \<noteq> JUndefined \<and> val \<noteq> JStr [])
            (map (\<lambda>row. cell row column) rows)"

text \<open>\<open>typeof v === 'number' && !isNaN(v)\<close>\<close>

fun is_valid_number :: "jsval \<Rightarrow> bool" where
  "is_valid_number (JNum x) = (\<not> isNaN_num x)"
| "is_valid_number _ = False"

text \<open>The number held by a cell known to be a number.\<close>

fun num_of :: "jsval \<Rightarrow> jsnum" where
  "num_of (JNum x) = x"
| "num_of _ = NaN"

text \<open>\<open>xs[i]\<close>: \<open>None\<close> stands for the \<open>undefined\<close> of a read out of range.\<close>

definition array_get :: "'a list \<Rightarrow> nat \<Rightarrow> 'a option" where
  "array_get xs i = (if i < length xs then Some (xs ! i) else None)"

text \<open>
  \<open>titanicData.merged[0][TARGET_COLUMN]\<close>: \<open>None\<close> stands for the \<open>TypeError\<close> of
  reading a property of \<open>undefined\<close> when there is no row.
\<close>

definition first_row_target :: "row list \<Rightarrow> jsval option" where
  "first_row_target rows = (case rows of [] \<Rightarrow> None | first # _ \<Rightarrow> Some (cell first TARGET_COLUMN))"

definition train_rows :: "row list \<Rightarrow> row list" where
  "train_rows rows = filter (\<lambda>row. cell row ''source'' = JStr ''train'') rows"

subsection \<open>Numeric columns\<close>

text \<open>
  The summary of the valid numbers of a column.  \<open>None\<close> stands for the
  \<open>TypeError\<close> of calling \<open>toFixed\<close> on an \<open>undefined\<close> array element.
\<close>

definition numeric_summary :: "row list \<Rightarrow> jsnum list \<Rightarrow> numeric_stats option" where
  "numeric_summary rows numericValues =
     (let mean = js_div (js_sum numericValues) (Fin (real (length numericValues)));
          sorted = Array_sort js_sub numericValues;
          variance =
            js_div (foldl (\<lambda>a b. js_add a (Math_pow2 (js_sub b mean))) (Fin 0) numericValues)
                   (Fin (real (length numericValues)));
          stdDev = Math_sqrt variance;
          min = Math_min numericValues;
          max = Math_max numericValues
      in case array_get sorted (nat \<lfloor>real (length sorted) / 2\<rfloor>) of
           None \<Rightarrow> None
         | Some median \<Rightarrow>
        (case array_get sorted (nat \<lfloor>real (length sorted) * 0.25\<rfloor>) of
           None \<Rightarrow> None
         | Some q1 \<Rightarrow>
        (case array_get sorted (nat \<lfloor>real (length sorted) * 0.75\<rfloor>) of
           None \<Rightarrow> None
         | Some q3 \<Rightarrow>
             Some \<lparr>ns_count = length numericValues,
                   ns_missing = int (length rows) - int (length numericValues),
                   ns_mean = toFixed 2 mean,
                   ns_median = toFixed 2 median,
                   ns_stdDev = toFixed 2 stdDev,
                   ns_min = toFixed 2 min,
                   ns_max = toFixed 2 max,
                   ns_q1 = toFixed 2 q1,
                   ns_q3 = toFixed 2 q3,
                   ns_groupedBySurvived = None\<rparr>)))"

definition numeric_grouped :: "row list \<Rightarrow> string \<Rightarrow> grouped_means" where
  "numeric_grouped rows column =
     (let trainData = train_rows rows;
          survivedValues =
            map (\<lambda>row. (num_of (cell row column), num_of (cell row TARGET_COLUMN)))
                (filter (\<lambda>row. typeof (cell row column) = TNumber
                               \<and> typeof (cell row TARGET_COLUMN) = TNumber) trainData);
          survivors = filter (\<lambda>v. snd v = Fin 1) survivedValues;
          others = filter (\<lambda>v. snd v = Fin 0) survivedValues;
          survivedMean =
            js_div (js_sum (map fst survivors)) (Fin (real (max 1 (length survivors))));
          notSurvivedMean =
            js_div (js_sum (map fst others)) (Fin (real (max 1 (length others))))
      in \<lparr>survivedMean = toFixed 2 survivedMean,
          notSurvivedMean = toFixed 2 notSurvivedMean,
          difference = toFixed 2 (js_sub survivedMean notSurvivedMean)\<rparr>)"

subsection \<open>Categorical columns\<close>

definition value_counts :: "(real \<Rightarrow> string) \<Rightarrow> jsval list \<Rightarrow> nat jsobj" where
  "value_counts fmt values =
     foldl (\<lambda>valueCounts v.
              let key = String fmt v
              in obj_set key ((case obj_get valueCounts key of None \<Rightarrow> 0 | Some c \<Rightarrow> c) + 1)
                   valueCounts)
           [] values"

definition by_count_desc :: "string \<times> nat \<Rightarrow> string \<times> nat \<Rightarrow> jsnum" where
  "by_count_desc a b = js_sub (Fin (real (snd b))) (Fin (real (snd a)))"

definition categorical_summary ::
  "(real \<Rightarrow> string) \<Rightarrow> row list \<Rightarrow> jsval list \<Rightarrow> categorical_stats" where
  "categorical_summary fmt rows values =
     (let valueCounts = value_counts fmt values;
          sortedCounts = take 10 (Array_sort by_count_desc (Object_entries valueCounts))
      in \<lparr>cs_count = length values,
          cs_missing = int (length rows) - int (length values),
          cs_uniqueValues = length (Object_keys valueCounts),
          cs_topValues = sortedCounts,
          cs_groupedBySurvived = None\<rparr>)"

record survival_counts =
  gc_survived :: nat
  gc_notSurvived :: nat

definition grouped_counts ::
  "(real \<Rightarrow> string) \<Rightarrow> row list \<Rightarrow> string \<Rightarrow> survival_counts jsobj" where
  "grouped_counts fmt trainRows column =
     foldl (\<lambda>groupedCounts row.
              if cell row column \<noteq> JNull \<and> cell row column \<noteq> JUndefined
                 \<and> cell row TARGET_COLUMN \<noteq> JNull \<and> cell row TARGET_COLUMN \<noteq> JUndefined
              then
                let key = String fmt (cell row column);
                    counts = (case obj_get groupedCounts key of
                                None \<Rightarrow> \<lparr>gc_survived = 0, gc_notSurvived = 0\<rparr>
                              | Some c \<Rightarrow> c)
                in obj_set key
                     (if cell row TARGET_COLUMN = JNum (Fin 1)
                      then counts\<lparr>gc_survived := gc_survived counts + 1\<rparr>
                      else counts\<lparr>gc_notSurvived := gc_notSurvived counts + 1\<rparr>)
                     groupedCounts
              else groupedCounts)
           [] trainRows"

definition survival_rate_of :: "string \<times> survival_counts \<Rightarrow> survival_rate" where
  "survival_rate_of entry =
     (case entry of (v, counts) \<Rightarrow>
        let total = gc_survived counts + gc_notSurvived counts
        in \<lparr>sr_value = v,
            sr_survived = gc_survived counts,
            sr_notSurvived = gc_notSurvived counts,
            sr_survivalRate =
              (if total > 0
               then toFixed 1 (js_mul (js_div (Fin (real (gc_survived counts))) (Fin (real total)))
                                      (Fin 100))
               else Decimal 1 0)\<rparr>)"

definition by_rate_desc :: "survival_rate \<Rightarrow> survival_rate \<Rightarrow> jsnum" where
  "by_rate_desc a b = js_sub (Number_of (sr_survivalRate b)) (Number_of (sr_survivalRate a))"

definition categorical_grouped ::
  "(real \<Rightarrow> string) \<Rightarrow> row list \<Rightarrow> string \<Rightarrow> survival_rate list" where
  "categorical_grouped fmt rows column =
     (let trainData = train_rows rows;
          groupedCounts = grouped_counts fmt trainData column;
          survivalRates =
            Array_sort by_rate_desc (map survival_rate_of (Object_entries groupedCounts))
      in take 10 survivalRates)"

subsection \<open>The loop over the columns\<close>

text \<open>
  What the loop body stores for one column: \<open>Some None\<close> when it stores nothing,
  \<open>None\<close> when it throws.
\<close>

definition column_summary ::
  "(real \<Rightarrow> string) \<Rightarrow> titanicData \<Rightarrow> string \<Rightarrow> column_stats option option" where
  "column_summary fmt td column =
     (let columnType = obj_get (columnTypes td) column;
          values = present_values (merged td) column
      in if columnType = Some Numeric then
           (let numericValues = map num_of (filter is_valid_number values)
            in if length numericValues > 0 then
                 (case numeric_summary (merged td) numericValues of
                    None \<Rightarrow> None
                  | Some st \<Rightarrow>
                      if column \<noteq> TARGET_COLUMN then
                        (case first_row_target (merged td) of
                           None \<Rightarrow> None
                         | Some t \<Rightarrow>
                             if t \<noteq> JUndefined
                             then Some (Some (NumericStats
                                    (st\<lparr>ns_groupedBySurvived :=
                                          Some (numeric_grouped (merged td) column)\<rparr>)))
                             else Some (Some (NumericStats st)))
                      else Some (Some (NumericStats st)))
               else Some None)
         else
           (let st = categorical_summary fmt (merged td) values
            in if column \<noteq> TARGET_COLUMN then
                 (case first_row_target (merged td) of
                    None \<Rightarrow> None
                  | Some t \<Rightarrow>
                      if t \<noteq> JUndefined
                      then Some (Some (CategoricalStats
                             (st\<lparr>cs_groupedBySurvived :=
                                   Some (categorical_grouped fmt (merged td) column)\<rparr>)))
                      else Some (Some (CategoricalStats st)))
               else Some (Some (CategoricalStats st))))"

fun summaries_loop ::
  "(real \<Rightarrow> string) \<Rightarrow> titanicData \<Rightarrow> string list \<Rightarrow> column_stats jsobj
     \<Rightarrow> column_stats jsobj option" where
  "summaries_loop fmt td [] st = Some st"
| "summaries_loop fmt td (column # rest) st =
     (case column_summary fmt td column of
        None \<Rightarrow> None
      | Some None \<Rightarrow> summaries_loop fmt td rest st
      | Some (Some s) \<Rightarrow> summaries_loop fmt td rest (obj_set column s st))"

text \<open>
  \<open>None\<close>: a \<open>TypeError\<close> is thrown, which needs a stored dataset without rows;
  \<open>runFullEDA\<close> returns before the call in that case.
\<close>

definition calculateStatisticalSummaries ::
  "(real \<Rightarrow> string) \<Rightarrow> titanicData \<Rightarrow> titanicData option" where
  "calculateStatisticalSummaries fmt td =
     (let columnsToAnalyze =
            filter (\<lambda>col. col \<notin> set EXCLUDED_COLUMNS \<and> col \<noteq> ''source'') (columns td)
      in case summaries_loop fmt td columnsToAnalyze [] of
           None \<Rightarrow> None
         | Some st \<Rightarrow> Some (td\<lparr>stats := st\<rparr>))"

section \<open>The correlation matrix (\<open>createCorrelationHeatmap\<close>)\<close>





section \<open>The analysis run (\<open>runFullEDA\<close>)\<close>

datatype eda_status = NoDataLoaded | ErrorDuringEDA | EDAComplete

text \<open>
  The run returns at once without rows; otherwise it computes the missing values
  and the summaries (the charts are left out).  Its \<open>catch\<close> branch needs a
  summary that throws; the stats of such an aborted run are not modelled, and
  \<open>runFullEDA_completes\<close> below shows that the branch is never taken.
\<close>

definition runFullEDA :: "(real \<Rightarrow> string) \<Rightarrow> titanicData \<Rightarrow> eda_status \<times> titanicData" where
  "runFullEDA fmt td =
     (if length (merged td) = 0 then (NoDataLoaded, td)
      else case calculateStatisticalSummaries fmt (calculateMissingValues td) of
             None \<Rightarrow> (ErrorDuringEDA, calculateMissingValues td)
           | Some td' \<Rightarrow> (EDAComplete, td'))"

section \<open>The specification's wording\<close>

text \<open>
  The rules below are written from the specification, to be compared with the
  functions above, which are written from the code.
\<close>

text \<open>Absent for type inference: \<open>null\<close>, \<open>undefined\<close> or the empty string.\<close>

definition spec_absent :: "jsval \<Rightarrow> bool" where
  "spec_absent v = (v = JNull \<or> v = JUndefined \<or> v = JStr [])"

text \<open>
  Type inference: skip absent values; any present value that is not a number makes
  the column categorical; otherwise at least one number makes it numeric; no
  present value at all makes it categorical.
\<close>

definition spec_infer_kind :: "row list \<Rightarrow> string \<Rightarrow> columnType" where
  "spec_infer_kind sample column =
     (let present = filter (\<lambda>v. \<not> spec_absent v) (map (\<lambda>r. cell r column) sample)
      in if list_ex (\<lambda>v. typeof v \<noteq> TNumber) present then Categorical
         else if present \<noteq> [] then Numeric
         else Categorical)"







text \<open>A formatter for data whose numbers are all integers, where it is never consulted.\<close>

definition unused_fmt :: "real \<Rightarrow> string" where
  "unused_fmt a = []"







section \<open>Properties of objects\<close>

lemma map_of_obj_set: "map_of (obj_set k v obj) = (map_of obj)(k \<mapsto> v)"
  by (simp add: obj_set_def update_conv')

lemma keys_obj_set: "fst ` set (obj_set k v obj) = insert k (fst ` set obj)"
  using dom_update [of k v obj] by (simp add: obj_set_def dom_map_of_conv_image_fst)

lemma set_Object_entries: "set (Object_entries obj) = set obj"
  by (auto simp: Object_entries_def)

lemma set_Object_keys: "set (Object_keys obj) = fst ` set obj"
  by (simp add: Object_keys_def set_Object_entries)

lemma map_of_spread_loop:
  "map_of (foldl (\<lambda>acc k. case map_of obj k of None \<Rightarrow> acc | Some v \<Rightarrow> obj_set k v acc) acc ks)
     = (\<lambda>k. if k \<in> set ks \<and> map_of obj k \<noteq> None then map_of obj k else map_of acc k)"
proof (induction ks arbitrary: acc)
  case Nil
  then show ?case by simp
next
  case (Cons a ks)
  show ?case
    by (cases "map_of obj a") (auto simp: Cons.IH map_of_obj_set fun_eq_iff)
qed

lemma map_of_spread: "map_of (spread obj) = map_of obj"
proof
  fix k
  show "map_of (spread obj) k = map_of obj k"
  proof (cases "map_of obj k")
    case None
    then show ?thesis
      unfolding spread_def obj_get_def map_of_spread_loop by simp
  next
    case (Some v)
    then have "k \<in> set (Object_keys obj)"
      using map_of_eq_None_iff [of obj k] by (auto simp: set_Object_keys)
    with Some show ?thesis
      unfolding spread_def obj_get_def map_of_spread_loop by simp
  qed
qed

lemma keys_spread: "fst ` set (spread obj) = fst ` set obj"
  using map_of_spread [of obj] by (metis dom_map_of_conv_image_fst)

lemma cell_with_source:
  "cell (with_source tag r) col = (if col = ''source'' then JStr tag else cell r col)"
  by (simp add: cell_def with_source_def obj_get_def map_of_obj_set map_of_spread)

lemma keys_with_source:
  "set (Object_keys (with_source tag r)) = insert ''source'' (set (Object_keys r))"
  by (simp add: set_Object_keys with_source_def keys_obj_set keys_spread)

section \<open>Properties of loading\<close>

lemma merged_determineColumnTypes: "merged (determineColumnTypes td) = merged td"
  by (simp add: determineColumnTypes_def Let_def)

lemma loadAndMergeDatasets_complete:
  "loadAndMergeDatasets (Some (ParseComplete A)) (Some (ParseComplete B)) td = (st, td')
   \<Longrightarrow> st = LoadedAndMerged
       \<and> merged td' = map (with_source ''train'') (data A) @ map (with_source ''test'') (data B)"
  by (auto simp: loadAndMergeDatasets_def Let_def merged_determineColumnTypes)

lemma loadAndMergeData_complete:
  "errors A = [] \<Longrightarrow> errors B = [] \<Longrightarrow>
   loadAndMergeData (Some (ParseComplete A)) (Some (ParseComplete B)) s = (st, s')
   \<Longrightarrow> st = LoadedAndMerged
       \<and> mergedData s' = map (with_source ''train'') (data A) @ map (with_source ''test'') (data B)"
  by (auto simp: loadAndMergeData_def Let_def)

section \<open>Merge: claims C1, C2 and C10\<close>

text \<open>
  C1 (as stated): if either input batch is empty or absent, the merge fails and no
  merged dataset is produced.  The code rejects absent files only: an empty train
  batch merged with a one-row test batch is accepted by both variants and gives a
  one-row dataset.
\<close>

theorem C1_empty_batch_counterexample:
  "\<not> is_error (fst (loadAndMergeDatasets
        (Some (ParseComplete \<lparr>errors = [], data = []\<rparr>))
        (Some (ParseComplete \<lparr>errors = [], data = [[(''PassengerId'', JNum (Fin 3))]]\<rparr>))
        initial_titanicData))
   \<and> length (merged (snd (loadAndMergeDatasets
        (Some (ParseComplete \<lparr>errors = [], data = []\<rparr>))
        (Some (ParseComplete \<lparr>errors = [], data = [[(''PassengerId'', JNum (Fin 3))]]\<rparr>))
        initial_titanicData))) = 1
   \<and> \<not> is_error (fst (loadAndMergeData
        (Some (ParseComplete \<lparr>errors = [], data = []\<rparr>))
        (Some (ParseComplete \<lparr>errors = [], data = [[(''PassengerId'', JNum (Fin 3))]]\<rparr>))
        initial_app_state))
   \<and> length (mergedData (snd (loadAndMergeData
        (Some (ParseComplete \<lparr>errors = [], data = []\<rparr>))
        (Some (ParseComplete \<lparr>errors = [], data = [[(''PassengerId'', JNum (Fin 3))]]\<rparr>))
        initial_app_state))) = 1"
  by (simp add: loadAndMergeDatasets_def loadAndMergeData_def Let_def merged_determineColumnTypes)

text \<open>
  C1 (amended): the merge fails, leaving the stored dataset as it was, when a file
  is absent; when both files are parsed it succeeds whatever the batch sizes, also
  for an empty batch, and stores the tagged rows of both batches.
\<close>

theorem C1_absent_file_rejected:
  "(trainFile = None \<or> testFile = None \<longrightarrow>
      loadAndMergeDatasets trainFile testFile td = (SelectBothFiles, td)
      \<and> loadAndMergeData trainFile testFile s = (SelectBothFiles, s))
   \<and> fst (loadAndMergeDatasets (Some (ParseComplete A)) (Some (ParseComplete B)) td)
        = LoadedAndMerged
   \<and> merged (snd (loadAndMergeDatasets (Some (ParseComplete A)) (Some (ParseComplete B)) td))
        = map (with_source ''train'') (data A) @ map (with_source ''test'') (data B)
   \<and> (errors A = [] \<and> errors B = [] \<longrightarrow>
        fst (loadAndMergeData (Some (ParseComplete A)) (Some (ParseComplete B)) s)
          = LoadedAndMerged
        \<and> mergedData (snd (loadAndMergeData (Some (ParseComplete A)) (Some (ParseComplete B)) s))
          = map (with_source ''train'') (data A) @ map (with_source ''test'') (data B))"
proof -
  have absent: "trainFile = None \<or> testFile = None \<longrightarrow>
      loadAndMergeDatasets trainFile testFile td = (SelectBothFiles, td)
      \<and> loadAndMergeData trainFile testFile s = (SelectBothFiles, s)"
    by (auto simp: loadAndMergeDatasets_def loadAndMergeData_def split: option.splits)
  have second: "fst (loadAndMergeDatasets (Some (ParseComplete A)) (Some (ParseComplete B)) td)
        = LoadedAndMerged
      \<and> merged (snd (loadAndMergeDatasets (Some (ParseComplete A)) (Some (ParseComplete B)) td))
        = map (with_source ''train'') (data A) @ map (with_source ''test'') (data B)"
    using loadAndMergeDatasets_complete [OF prod.collapse [symmetric]] by blast
  have first: "errors A = [] \<and> errors B = [] \<longrightarrow>
        fst (loadAndMergeData (Some (ParseComplete A)) (Some (ParseComplete B)) s)
          = LoadedAndMerged
        \<and> mergedData (snd (loadAndMergeData (Some (ParseComplete A)) (Some (ParseComplete B)) s))
          = map (with_source ''train'') (data A) @ map (with_source ''test'') (data B)"
    using loadAndMergeData_complete [OF _ _ prod.collapse [symmetric]] by blast
  from absent second first show ?thesis by blast
qed

theorem C1_absent_file_rejected_witness:
  "loadAndMergeDatasets None (Some (ParseComplete \<lparr>errors = [], data = []\<rparr>)) initial_titanicData
     = (SelectBothFiles, initial_titanicData)
   \<and> loadAndMergeData None (Some (ParseComplete \<lparr>errors = [], data = []\<rparr>)) initial_app_state
     = (SelectBothFiles, initial_app_state)
   \<and> mergedData (snd (loadAndMergeData
        (Some (ParseComplete \<lparr>errors = [], data = []\<rparr>))
        (Some (ParseComplete \<lparr>errors = [], data = [[(''Age'', JNum (Fin 26))]]\<rparr>))
        initial_app_state))
     = [with_source ''test'' [(''Age'', JNum (Fin 26))]]"
  using C1_absent_file_rejected
          [of None "Some (ParseComplete \<lparr>errors = [], data = []\<rparr>)" initial_titanicData
              initial_app_state "\<lparr>errors = [], data = []\<rparr>"
              "\<lparr>errors = [], data = [[(''Age'', JNum (Fin 26))]]\<rparr>"]
  by simp

text \<open>
  C2: the merged dataset has exactly m+n rows in append order: the first m rows
  carry the tag \<open>train\<close> in the \<open>source\<close> column and the remaining n rows the tag
  \<open>test\<close> (both variants; the first variant merges when neither parse reported errors).
\<close>

theorem C2_merge_row_count_and_tags:
  assumes "loadAndMergeDatasets (Some (ParseComplete A)) (Some (ParseComplete B)) td = (st, td')"
    and "loadAndMergeData (Some (ParseComplete A)) (Some (ParseComplete B)) s = (st1, s')"
  shows "(length (merged td') = length (data A) + length (data B)
          \<and> (\<forall>i < length (data A). cell (merged td' ! i) ''source'' = JStr ''train'')
          \<and> (\<forall>j < length (data B).
                cell (merged td' ! (length (data A) + j)) ''source'' = JStr ''test''))
       \<and> (errors A = [] \<and> errors B = [] \<longrightarrow>
            length (mergedData s') = length (data A) + length (data B)
          \<and> (\<forall>i < length (data A). cell (mergedData s' ! i) ''source'' = JStr ''train'')
          \<and> (\<forall>j < length (data B).
                cell (mergedData s' ! (length (data A) + j)) ''source'' = JStr ''test''))"
proof -
  have m: "merged td' = map (with_source ''train'') (data A) @ map (with_source ''test'') (data B)"
    using loadAndMergeDatasets_complete [OF assms(1)] by simp
  have tags: "\<And>rows. rows = map (with_source ''train'') (data A) @ map (with_source ''test'') (data B)
      \<Longrightarrow> length rows = length (data A) + length (data B)
        \<and> (\<forall>i < length (data A). cell (rows ! i) ''source'' = JStr ''train'')
        \<and> (\<forall>j < length (data B). cell (rows ! (length (data A) + j)) ''source'' = JStr ''test'')"
    by (simp add: nth_append cell_with_source)
  have "errors A = [] \<and> errors B = [] \<longrightarrow>
      mergedData s' = map (with_source ''train'') (data A) @ map (with_source ''test'') (data B)"
    using loadAndMergeData_complete [OF _ _ assms(2)] by blast
  with tags [OF m] tags [of "mergedData s'"] show ?thesis by blast
qed

theorem C2_merge_row_count_and_tags_witness:
  "length (merged (snd (loadAndMergeDatasets
      (Some (ParseComplete \<lparr>errors = [], data = [[(''Age'', JNum (Fin 22))], [(''Age'', JNum (Fin 38))]]\<rparr>))
      (Some (ParseComplete \<lparr>errors = [], data = [[(''Age'', JNum (Fin 26))]]\<rparr>))
      initial_titanicData))) = 3
   \<and> cell (merged (snd (loadAndMergeDatasets
      (Some (ParseComplete \<lparr>errors = [], data = [[(''Age'', JNum (Fin 22))], [(''Age'', JNum (Fin 38))]]\<rparr>))
      (Some (ParseComplete \<lparr>errors = [], data = [[(''Age'', JNum (Fin 26))]]\<rparr>))
      initial_titanicData)) ! 1) ''source'' = JStr ''train''
   \<and> cell (merged (snd (loadAndMergeDatasets
      (Some (ParseComplete \<lparr>errors = [], data = [[(''Age'', JNum (Fin 22))], [(''Age'', JNum (Fin 38))]]\<rparr>))
      (Some (ParseComplete \<lparr>errors = [], data = [[(''Age'', JNum (Fin 26))]]\<rparr>))
      initial_titanicData)) ! 2) ''source'' = JStr ''test''
   \<and> cell (mergedData (snd (loadAndMergeData
      (Some (ParseComplete \<lparr>errors = [], data = [[(''Age'', JNum (Fin 22))], [(''Age'', JNum (Fin 38))]]\<rparr>))
      (Some (ParseComplete \<lparr>errors = [], data = [[(''Age'', JNum (Fin 26))]]\<rparr>))
      initial_app_state)) ! 2) ''source'' = JStr ''test''"
proof -
  let ?A = "\<lparr>errors = [], data = [[(''Age'', JNum (Fin 22))], [(''Age'', JNum (Fin 38))]]\<rparr>"
  let ?B = "\<lparr>errors = [], data = [[(''Age'', JNum (Fin 26))]]\<rparr>"
  note w = C2_merge_row_count_and_tags
          [OF prod.collapse [symmetric] prod.collapse [symmetric],
           of ?A ?B initial_titanicData initial_app_state]
  have one: "(1::nat) < length (data ?A)" and zero: "(0::nat) < length (data ?B)"
    by simp_all
  from w have "length (merged (snd (loadAndMergeDatasets (Some (ParseComplete ?A))
      (Some (ParseComplete ?B)) initial_titanicData))) = 3"
    by simp
  moreover from w one have "cell (merged (snd (loadAndMergeDatasets (Some (ParseComplete ?A))
      (Some (ParseComplete ?B)) initial_titanicData)) ! 1) ''source'' = JStr ''train''"
    by blast
  moreover from w zero have "cell (merged (snd (loadAndMergeDatasets (Some (ParseComplete ?A))
      (Some (ParseComplete ?B)) initial_titanicData)) ! (length (data ?A) + 0)) ''source''
        = JStr ''test''"
    by blast
  moreover from w zero have "cell (mergedData (snd (loadAndMergeData (Some (ParseComplete ?A))
      (Some (ParseComplete ?B)) initial_app_state)) ! (length (data ?A) + 0)) ''source''
        = JStr ''test''"
    by simp
  ultimately show ?thesis by (simp add: numeral_2_eq_2)
qed

lemma tagged_rows:
  assumes "rows = map (with_source ''train'') as @ map (with_source ''test'') bs"
  shows "(\<forall>i < length as.
            (\<forall>col. col \<noteq> ''source'' \<longrightarrow> cell (rows ! i) col = cell (as ! i) col)
          \<and> set (Object_keys (rows ! i)) = insert ''source'' (set (Object_keys (as ! i)))
          \<and> cell (rows ! i) ''source'' = JStr ''train'')
       \<and> (\<forall>j < length bs.
            (\<forall>col. col \<noteq> ''source'' \<longrightarrow> cell (rows ! (length as + j)) col = cell (bs ! j) col)
          \<and> set (Object_keys (rows ! (length as + j)))
              = insert ''source'' (set (Object_keys (bs ! j)))
          \<and> cell (rows ! (length as + j)) ''source'' = JStr ''test'')"
  unfolding assms by (simp add: nth_append cell_with_source keys_with_source)

text \<open>
  C10: every merged row has every field of its input record with the value
  unchanged, and the only key added is \<open>source\<close>; the \<open>source\<close> field of the
  merged row is the origin tag whatever the input record held there, so a
  \<open>source\<close> field of the input is overwritten (both variants).
\<close>

theorem C10_merge_copies_fields_overwrites_source:
  assumes "loadAndMergeDatasets (Some (ParseComplete A)) (Some (ParseComplete B)) td = (st, td')"
    and "loadAndMergeData (Some (ParseComplete A)) (Some (ParseComplete B)) s = (st1, s')"
  shows "((\<forall>i < length (data A).
            (\<forall>col. col \<noteq> ''source'' \<longrightarrow> cell (merged td' ! i) col = cell (data A ! i) col)
          \<and> set (Object_keys (merged td' ! i))
              = insert ''source'' (set (Object_keys (data A ! i)))
          \<and> cell (merged td' ! i) ''source'' = JStr ''train'')
       \<and> (\<forall>j < length (data B).
            (\<forall>col. col \<noteq> ''source'' \<longrightarrow>
                cell (merged td' ! (length (data A) + j)) col = cell (data B ! j) col)
          \<and> set (Object_keys (merged td' ! (length (data A) + j)))
              = insert ''source'' (set (Object_keys (data B ! j)))
          \<and> cell (merged td' ! (length (data A) + j)) ''source'' = JStr ''test''))
     \<and> (errors A = [] \<and> errors B = [] \<longrightarrow>
         (\<forall>i < length (data A).
            (\<forall>col. col \<noteq> ''source'' \<longrightarrow> cell (mergedData s' ! i) col = cell (data A ! i) col)
          \<and> set (Object_keys (mergedData s' ! i))
              = insert ''source'' (set (Object_keys (data A ! i)))
          \<and> cell (mergedData s' ! i) ''source'' = JStr ''train'')
       \<and> (\<forall>j < length (data B).
            (\<forall>col. col \<noteq> ''source'' \<longrightarrow>
                cell (mergedData s' ! (length (data A) + j)) col = cell (data B ! j) col)
          \<and> set (Object_keys (mergedData s' ! (length (data A) + j)))
              = insert ''source'' (set (Object_keys (data B ! j)))
          \<and> cell (mergedData s' ! (length (data A) + j)) ''source'' = JStr ''test''))"
proof (rule conjI, goal_cases)
  case 1
  have "merged td' = map (with_source ''train'') (data A) @ map (with_source ''test'') (data B)"
    using loadAndMergeDatasets_complete [OF assms(1)] by simp
  then show ?case by (rule tagged_rows)
next
  case 2
  show ?case
  proof (rule impI)
    assume "errors A = [] \<and> errors B = []"
    then have "mergedData s'
        = map (with_source ''train'') (data A) @ map (with_source ''test'') (data B)"
      using loadAndMergeData_complete [OF _ _ assms(2)] by simp
    then show "(\<forall>i < length (data A).
            (\<forall>col. col \<noteq> ''source'' \<longrightarrow> cell (mergedData s' ! i) col = cell (data A ! i) col)
          \<and> set (Object_keys (mergedData s' ! i))
              = insert ''source'' (set (Object_keys (data A ! i)))
          \<and> cell (mergedData s' ! i) ''source'' = JStr ''train'')
       \<and> (\<forall>j < length (data B).
            (\<forall>col. col \<noteq> ''source'' \<longrightarrow>
                cell (mergedData s' ! (length (data A) + j)) col = cell (data B ! j) col)
          \<and> set (Object_keys (mergedData s' ! (length (data A) + j)))
              = insert ''source'' (set (Object_keys (data B ! j)))
          \<and> cell (mergedData s' ! (length (data A) + j)) ''source'' = JStr ''test'')"
      by (rule tagged_rows)
  qed
qed

theorem C10_merge_copies_fields_overwrites_source_witness:
  "cell [(''source'', JStr ''kaggle''), (''Age'', JNum (Fin 22))] ''source'' = JStr ''kaggle''
   \<and> cell (merged (snd (loadAndMergeDatasets
        (Some (ParseComplete
          \<lparr>errors = [], data = [[(''source'', JStr ''kaggle''), (''Age'', JNum (Fin 22))]]\<rparr>))
        (Some (ParseComplete \<lparr>errors = [], data = [[(''Age'', JNum (Fin 26))]]\<rparr>))
        initial_titanicData)) ! 0) ''source'' = JStr ''train''
   \<and> cell (merged (snd (loadAndMergeDatasets
        (Some (ParseComplete
          \<lparr>errors = [], data = [[(''source'', JStr ''kaggle''), (''Age'', JNum (Fin 22))]]\<rparr>))
        (Some (ParseComplete \<lparr>errors = [], data = [[(''Age'', JNum (Fin 26))]]\<rparr>))
        initial_titanicData)) ! 0) ''Age'' = JNum (Fin 22)
   \<and> set (Object_keys (mergedData (snd (loadAndMergeData
        (Some (ParseComplete
          \<lparr>errors = [], data = [[(''source'', JStr ''kaggle''), (''Age'', JNum (Fin 22))]]\<rparr>))
        (Some (ParseComplete \<lparr>errors = [], data = [[(''Age'', JNum (Fin 26))]]\<rparr>))
        initial_app_state)) ! 1)) = {''source'', ''Age''}"
proof -
  let ?A = "\<lparr>errors = [], data = [[(''source'', JStr ''kaggle''), (''Age'', JNum (Fin 22))]]\<rparr>"
  let ?B = "\<lparr>errors = [], data = [[(''Age'', JNum (Fin 26))]]\<rparr>"
  note w = C10_merge_copies_fields_overwrites_source
          [OF prod.collapse [symmetric] prod.collapse [symmetric],
           of ?A ?B initial_titanicData initial_app_state]
  have zeroA: "(0::nat) < length (data ?A)" and zeroB: "(0::nat) < length (data ?B)"
    and age: "''Age'' \<noteq> ''source''" and errs: "errors ?A = [] \<and> errors ?B = []"
    by simp_all
  note train0 = w [THEN conjunct1, THEN conjunct1, rule_format, OF zeroA]
  note test0 = w [THEN conjunct2, rule_format, OF errs, THEN conjunct2, rule_format, OF zeroB]
  show ?thesis
    using train0 [THEN conjunct1, rule_format, OF age] train0 [THEN conjunct2, THEN conjunct2]
      test0 [THEN conjunct2, THEN conjunct1]
    by (simp add: cell_def obj_get_def set_Object_keys)
qed

section \<open>Type inference: claim C6\<close>

lemma scan_sample_flag:
  "fst (scan_sample vs b n)
     = (b \<and> \<not> list_ex (\<lambda>v. \<not> is_missing_cell v \<and> typeof v \<noteq> TNumber) vs)"
  by (induction vs arbitrary: n) auto

lemma scan_sample_count:
  "\<not> list_ex (\<lambda>v. \<not> is_missing_cell v \<and> typeof v \<noteq> TNumber) vs
   \<Longrightarrow> snd (scan_sample vs b n) = n + length (filter (\<lambda>v. \<not> is_missing_cell v) vs)"
  by (induction vs arbitrary: n) auto

lemma column_type_spec:
  "column \<noteq> ''source'' \<Longrightarrow> column_type sample column = spec_infer_kind sample column"
proof -
  let ?vs = "map (\<lambda>r. cell r column) sample"
  let ?bad = "list_ex (\<lambda>v. \<not> is_missing_cell v \<and> typeof v \<noteq> TNumber) ?vs"
  have absent: "spec_absent = is_missing_cell"
    by (simp add: fun_eq_iff spec_absent_def is_missing_cell_def)
  have bad: "list_ex (\<lambda>v. typeof v \<noteq> TNumber) (filter (\<lambda>v. \<not> is_missing_cell v) ?vs) = ?bad"
    by (auto simp: list_ex_iff)
  assume src: "column \<noteq> ''source''"
  obtain isNumeric numericCount where sc: "scan_sample ?vs True 0 = (isNumeric, numericCount)"
    by (cases "scan_sample ?vs True 0")
  show ?thesis
  proof (cases ?bad)
    case True
    with scan_sample_flag [of ?vs True 0] sc have "\<not> isNumeric" by simp
    with src sc True show ?thesis
      unfolding column_type_def spec_infer_kind_def absent Let_def bad by simp
  next
    case False
    with scan_sample_flag [of ?vs True 0] scan_sample_count [of ?vs True 0] sc
    have "isNumeric" and "numericCount = length (filter (\<lambda>v. \<not> is_missing_cell v) ?vs)"
      by simp_all
    with src sc False show ?thesis
      unfolding column_type_def spec_infer_kind_def absent Let_def bad
      by (simp add: filter_map)
  qed
qed

lemma map_of_types_loop:
  "map_of (foldl (\<lambda>types column. obj_set column (f column) types) acc cs) c
     = (if c \<in> set cs then Some (f c) else map_of acc c)"
  by (induction cs arbitrary: acc) (auto simp: map_of_obj_set)

text \<open>
  C6: for a stored dataset with rows, the type of every column is a function of
  the first \<open>min(100, rowCount)\<close> rows alone: \<open>source\<close> is categorical by
  construction, and any other column has the kind the specification's rule gives
  on that sample.
\<close>

theorem C6_type_inference_on_sample:
  assumes "merged td \<noteq> []" and "column \<in> set (columns td)"
  shows "obj_get (columnTypes (determineColumnTypes td)) column
           = Some (if column = ''source'' then Categorical
                   else spec_infer_kind (take (min 100 (length (merged td))) (merged td)) column)"
proof (cases "column = ''source''")
  case True
  with assms show ?thesis
    by (simp add: determineColumnTypes_def obj_get_def Let_def map_of_types_loop column_type_def)
next
  case False
  with assms show ?thesis
    by (simp add: determineColumnTypes_def obj_get_def Let_def map_of_types_loop column_type_spec)
qed


theorem C6_type_inference_on_sample_witness:
  "obj_get (columnTypes (determineColumnTypes
      (initial_titanicData\<lparr>merged := [[(''Age'', JNum (Fin 22)), (''Sex'', JStr ''male'')],
                                      [(''Age'', JNull), (''Sex'', JStr ''female'')]],
                           columns := [''Age'', ''Sex'', ''Cabin'', ''source'']\<rparr>))) ''Age''
     = Some Numeric
   \<and> obj_get (columnTypes (determineColumnTypes
      (initial_titanicData\<lparr>merged := [[(''Age'', JNum (Fin 22)), (''Sex'', JStr ''male'')],
                                      [(''Age'', JNull), (''Sex'', JStr ''female'')]],
                           columns := [''Age'', ''Sex'', ''Cabin'', ''source'']\<rparr>))) ''Sex''
     = Some Categorical
   \<and> obj_get (columnTypes (determineColumnTypes
      (initial_titanicData\<lparr>merged := [[(''Age'', JNum (Fin 22)), (''Sex'', JStr ''male'')],
                                      [(''Age'', JNull), (''Sex'', JStr ''female'')]],
                           columns := [''Age'', ''Sex'', ''Cabin'', ''source'']\<rparr>))) ''Cabin''
     = Some Categorical"
proof -
  let ?td = "initial_titanicData\<lparr>merged := [[(''Age'', JNum (Fin 22)), (''Sex'', JStr ''male'')],
                                      [(''Age'', JNull), (''Sex'', JStr ''female'')]],
                           columns := [''Age'', ''Sex'', ''Cabin'', ''source'']\<rparr>"
  have rows: "merged ?td \<noteq> []" by simp
  have cols: "''Age'' \<in> set (columns ?td)" "''Sex'' \<in> set (columns ?td)"
    "''Cabin'' \<in> set (columns ?td)"
    by simp_all
  show ?thesis
    using C6_type_inference_on_sample [OF rows cols(1)]
      C6_type_inference_on_sample [OF rows cols(2)]
      C6_type_inference_on_sample [OF rows cols(3)]
    by (simp add: spec_infer_kind_def spec_absent_def cell_def obj_get_def)
qed

section \<open>Missing values: claim C7\<close>





lemma mset_sort_insert: "mset (sort_insert cmp x ys) = add_mset x (mset ys)"
  by (induction ys) auto

lemma mset_Array_sort: "mset (Array_sort cmp xs) = mset xs"
  unfolding Array_sort_def by (induction xs) (auto simp: mset_sort_insert)


lemma length_Array_sort: "length (Array_sort cmp xs) = length xs"
  using mset_Array_sort [of cmp xs] by (metis size_mset)




section \<open>The summaries stored by \<open>calculateStatisticalSummaries\<close>\<close>

lemma summaries_loop_lookup:
  "summaries_loop fmt td cols st0 = Some st \<Longrightarrow>
   map_of st c = (if c \<in> set cols
                  then (case column_summary fmt td c of
                          Some (Some s) \<Rightarrow> Some s
                        | _ \<Rightarrow> map_of st0 c)
                  else map_of st0 c)"
proof (induction cols arbitrary: st0)
  case Nil
  then show ?case by simp
next
  case (Cons column rest)
  show ?case
  proof (cases "column_summary fmt td column")
    case None
    with Cons.prems show ?thesis by simp
  next
    case (Some r)
    show ?thesis
    proof (cases r)
      case None
      with Some Cons.prems have "summaries_loop fmt td rest st0 = Some st" by simp
      from Cons.IH [OF this] Some None show ?thesis by auto
    next
      case (Some s)
      with \<open>column_summary fmt td column = Some r\<close> Cons.prems
      have "summaries_loop fmt td rest (obj_set column s st0) = Some st" by simp
      from Cons.IH [OF this] Some \<open>column_summary fmt td column = Some r\<close>
      show ?thesis by (auto simp: map_of_obj_set split: option.splits)
    qed
  qed
qed


section \<open>Numbers and sorting\<close>







lemma rank_indices:
  assumes "0 < n"
  shows "nat \<lfloor>real n / 2\<rfloor> = n div 2" and "nat \<lfloor>real n * 0.25\<rfloor> = n div 4"
    and "nat \<lfloor>real n * 0.75\<rfloor> = (3 * n) div 4"
    and "n div 2 < n" and "n div 4 < n" and "(3 * n) div 4 < n"
proof -
  have "\<lfloor>real n / 2\<rfloor> = int (n div 2)"
    by (simp add: floor_divide_of_nat_eq [of n 2, simplified] )
  then show "nat \<lfloor>real n / 2\<rfloor> = n div 2" by simp
  have "real n * 0.25 = real n / real 4" by simp
  then have "\<lfloor>real n * 0.25\<rfloor> = int (n div 4)"
    by (simp only: floor_divide_of_nat_eq)
  then show "nat \<lfloor>real n * 0.25\<rfloor> = n div 4" by simp
  have "real n * 0.75 = real (3 * n) / real 4" by simp
  then have "\<lfloor>real n * 0.75\<rfloor> = int ((3 * n) div 4)"
    by (simp only: floor_divide_of_nat_eq)
  then show "nat \<lfloor>real n * 0.75\<rfloor> = (3 * n) div 4" by simp
  from assms show "n div 2 < n" and "n div 4 < n" and "(3 * n) div 4 < n" by auto
qed


lemma numeric_summary_defined:
  assumes "numericValues \<noteq> []"
  shows "numeric_summary rows numericValues =
     (let mean = js_div (js_sum numericValues) (Fin (real (length numericValues)));
          sorted = Array_sort js_sub numericValues;
          variance =
            js_div (foldl (\<lambda>a b. js_add a (Math_pow2 (js_sub b mean))) (Fin 0) numericValues)
                   (Fin (real (length numericValues)))
      in Some \<lparr>ns_count = length numericValues,
                ns_missing = int (length rows) - int (length numericValues),
                ns_mean = toFixed 2 mean,
                ns_median = toFixed 2 (sorted ! (length numericValues div 2)),
                ns_stdDev = toFixed 2 (Math_sqrt variance),
                ns_min = toFixed 2 (Math_min numericValues),
                ns_max = toFixed 2 (Math_max numericValues),
                ns_q1 = toFixed 2 (sorted ! (length numericValues div 4)),
                ns_q3 = toFixed 2 (sorted ! ((3 * length numericValues) div 4)),
                ns_groupedBySurvived = None\<rparr>)"
proof -
  from assms have n: "0 < length numericValues" by simp
  show ?thesis
    unfolding numeric_summary_def Let_def length_Array_sort array_get_def
      rank_indices(1-3) [OF n]
    using rank_indices(4-6) [OF n] by (simp del: toFixed.simps)
qed

lemma column_summary_defined:
  assumes "merged td \<noteq> []"
  shows "column_summary fmt td column \<noteq> None"
proof -
  from assms obtain t where target: "first_row_target (merged td) = Some t"
    by (cases "merged td") (simp_all add: first_row_target_def)
  show ?thesis
  proof (cases "obj_get (columnTypes td) column = Some Numeric")
    case numeric: True
    let ?nv = "map num_of (filter is_valid_number (present_values (merged td) column))"
    show ?thesis
    proof (cases "?nv = []")
      case True
      with numeric show ?thesis by (simp add: column_summary_def Let_def)
    next
      case False
      then obtain st where "numeric_summary (merged td) ?nv = Some st"
        by (simp add: numeric_summary_defined Let_def)
      with numeric False target show ?thesis
        by (simp add: column_summary_def Let_def)
    qed
  next
    case False
    with target show ?thesis by (simp add: column_summary_def Let_def)
  qed
qed

lemma summaries_loop_defined:
  "merged td \<noteq> [] \<Longrightarrow> summaries_loop fmt td cols st \<noteq> None"
proof (induction cols arbitrary: st)
  case Nil
  then show ?case by simp
next
  case (Cons column rest)
  from column_summary_defined [OF Cons.prems, of fmt column]
  obtain r where "column_summary fmt td column = Some r" by auto
  with Cons show ?case by (cases r) simp_all
qed

lemma calculateStatisticalSummaries_defined:
  "merged td \<noteq> [] \<Longrightarrow> \<exists>td'. calculateStatisticalSummaries fmt td = Some td'"
  using summaries_loop_defined [of td fmt]
  by (auto simp: calculateStatisticalSummaries_def Let_def split: option.splits)

lemma stats_of_column:
  assumes "calculateStatisticalSummaries fmt td = Some td'"
    and "column \<in> set (columns td)" and "column \<notin> set EXCLUDED_COLUMNS"
    and "column \<noteq> ''source''"
  shows "obj_get (stats td') column
           = (case column_summary fmt td column of Some (Some s) \<Rightarrow> Some s | _ \<Rightarrow> None)"
proof -
  let ?cols = "filter (\<lambda>col. col \<notin> set EXCLUDED_COLUMNS \<and> col \<noteq> ''source'') (columns td)"
  from assms(1) obtain st where loop: "summaries_loop fmt td ?cols [] = Some st"
    and td': "td' = td\<lparr>stats := st\<rparr>"
    by (auto simp: calculateStatisticalSummaries_def Let_def split: option.splits)
  from assms(2-4) have "column \<in> set ?cols" by simp
  with summaries_loop_lookup [OF loop, of column] td' show ?thesis
    by (auto simp: obj_get_def split: option.splits)
qed

lemma merged_calculateMissingValues: "merged (calculateMissingValues td) = merged td"
  by (simp add: calculateMissingValues_def)

lemma runFullEDA_completes:
  assumes "merged td \<noteq> []"
  shows "\<exists>td'. runFullEDA fmt td = (EDAComplete, td')
          \<and> calculateStatisticalSummaries fmt (calculateMissingValues td) = Some td'"
proof -
  from assms have "merged (calculateMissingValues td) \<noteq> []"
    by (simp add: merged_calculateMissingValues)
  from calculateStatisticalSummaries_defined [OF this, of fmt] assms show ?thesis
    by (auto simp: runFullEDA_def)
qed

section \<open>Categorical summaries: claim C9\<close>



















section \<open>Grouping by the label: claim C3\<close>

text \<open>
  C3: a train row whose label is outside \<open>{0, 1}\<close> is excluded from the grouped
  tallies.  The categorical branch counts every present label other than \<open>1\<close> as
  not survived: with the train rows (male, label 2) and (female, label 1) and the
  test row (male), the summary of \<open>Sex\<close> reports one male who did not survive.
  (The numeric branch of the same function keeps only the labels \<open>1\<close> and \<open>0\<close>.)
\<close>

theorem C3_label_outside_0_1_counted_negative:
  "obj_get (stats (the (calculateStatisticalSummaries unused_fmt
      (snd (loadAndMergeDatasets
        (Some (ParseComplete
          \<lparr>errors = [],
           data = [[(''Sex'', JStr ''male''), (''Survived'', JNum (Fin 2))],
                   [(''Sex'', JStr ''female''), (''Survived'', JNum (Fin 1))]]\<rparr>))
        (Some (ParseComplete \<lparr>errors = [], data = [[(''Sex'', JStr ''male'')]]\<rparr>))
        initial_titanicData))))) ''Sex''
     = Some (CategoricalStats
         \<lparr>cs_count = 3, cs_missing = 0, cs_uniqueValues = 2,
          cs_topValues = [(''male'', 2), (''female'', 1)],
          cs_groupedBySurvived =
            Some [\<lparr>sr_value = ''female'', sr_survived = 1, sr_notSurvived = 0,
                     sr_survivalRate = Decimal 1 100\<rparr>,
                  \<lparr>sr_value = ''male'', sr_survived = 0, sr_notSurvived = 1,
                     sr_survivalRate = Decimal 1 0\<rparr>]\<rparr>)"
proof -
  let ?rows = "[[(''Sex'', JStr ''male''), (''Survived'', JNum (Fin 2)), (''source'', JStr ''train'')],
                [(''Sex'', JStr ''female''), (''Survived'', JNum (Fin 1)), (''source'', JStr ''train'')],
                [(''Sex'', JStr ''male''), (''source'', JStr ''test'')]]"
  let ?td = "\<lparr>merged = ?rows, trainCount = 2, testCount = 1,
              columns = [''Sex'', ''Survived'', ''source''],
              columnTypes = [(''Sex'', Categorical), (''Survived'', Numeric),
                             (''source'', Categorical)],
              missingValues = [], stats = []\<rparr>"
  have loaded: "snd (loadAndMergeDatasets
        (Some (ParseComplete
          \<lparr>errors = [],
           data = [[(''Sex'', JStr ''male''), (''Survived'', JNum (Fin 2))],
                   [(''Sex'', JStr ''female''), (''Survived'', JNum (Fin 1))]]\<rparr>))
        (Some (ParseComplete \<lparr>errors = [], data = [[(''Sex'', JStr ''male'')]]\<rparr>))
        initial_titanicData) = ?td"
    by code_simp
  have cells: "present_values ?rows ''Sex'' = [JStr ''male'', JStr ''female'', JStr ''male'']"
    by code_simp
  have summary: "categorical_summary unused_fmt ?rows [JStr ''male'', JStr ''female'', JStr ''male'']
      = \<lparr>cs_count = 3, cs_missing = 0, cs_uniqueValues = 2,
          cs_topValues = [(''male'', 2), (''female'', 1)],
          cs_groupedBySurvived = None\<rparr>"
    by code_simp
  have target: "first_row_target ?rows = Some (JNum (Fin 2))"
    by code_simp
  have grouped: "categorical_grouped unused_fmt ?rows ''Sex''
      = [\<lparr>sr_value = ''female'', sr_survived = 1, sr_notSurvived = 0,
                     sr_survivalRate = Decimal 1 100\<rparr>,
                  \<lparr>sr_value = ''male'', sr_survived = 0, sr_notSurvived = 1,
                     sr_survivalRate = Decimal 1 0\<rparr>]"
    by code_simp
  have column: "column_summary unused_fmt ?td ''Sex''
      = Some (Some (CategoricalStats
         \<lparr>cs_count = 3, cs_missing = 0, cs_uniqueValues = 2,
          cs_topValues = [(''male'', 2), (''female'', 1)],
          cs_groupedBySurvived =
            Some [\<lparr>sr_value = ''female'', sr_survived = 1, sr_notSurvived = 0,
                     sr_survivalRate = Decimal 1 100\<rparr>,
                  \<lparr>sr_value = ''male'', sr_survived = 0, sr_notSurvived = 1,
                     sr_survivalRate = Decimal 1 0\<rparr>]\<rparr>))"
    by (simp add: column_summary_def TARGET_COLUMN_def obj_get_def Let_def
        cells summary target grouped)
  obtain td' where run: "calculateStatisticalSummaries unused_fmt ?td = Some td'"
    using calculateStatisticalSummaries_defined [of ?td unused_fmt] by auto
  have "obj_get (stats td') ''Sex''
      = (case column_summary unused_fmt ?td ''Sex'' of Some (Some s) \<Rightarrow> Some s | _ \<Rightarrow> None)"
    by (rule stats_of_column [OF run]) (simp_all add: EXCLUDED_COLUMNS_def)
  with run column show ?thesis
    unfolding loaded by simp
qed

section \<open>Numeric summaries: claims C5 and C8\<close>

























section \<open>The correlation matrix: claim C4\<close>
















end
